theory Spec2Isabelle
  imports Complex_Main "HOL-Library.Word"
begin

section \<open>Python values and exceptions\<close>

text \<open>
  The two modules under study are \<^verbatim>\<open>idb/common/companion_spawner.py\<close> (the process
  supervisor) and \<^verbatim>\<open>idb/ipc/install.py\<close> (chunk encoders, the install client and the
  relay). Exceptions are values of \<open>py_error\<close>; a function that can raise returns
  \<open>py_error + 'a\<close> with \<open>Inl\<close> for the raised exception.
\<close>

type_synonym bytes = "8 word list"

datatype Destination = APP | XCTEST | DYLIB | DSYM | FRAMEWORK

datatype Status = FAILED_PRECONDITION

text \<open>
  The three messages that \<^verbatim>\<open>CompanionSpawnerException\<close> is raised with in
  \<^verbatim>\<open>spawn_companion\<close>; the first one embeds the target udid.
\<close>

datatype spawner_message =
    CompanionPathNotAvailable string
  | FailedToSpawnCompanion
  | ProcessHasNoStdout

datatype py_error =
    CompanionSpawnerException spawner_message
  | JSONDecodeError
  | UnicodeDecodeError
  | TypeError
  | KeyError string
  | AttributeError
  | AssertionError
  | FileNotFoundError
  | ValueError
  | OSError string
  | GRPCError Status string Destination
  | Exception string

subsection \<open>Values returned by the JSON decoder\<close>

datatype float_val = FloatFinite rat | FloatInf | FloatNegInf | FloatNaN

text \<open>
  A decoded object is a Python dict; it is kept as an association list that is searched
  from the front.
\<close>

datatype json =
    JNull
  | JBool bool
  | JInt int
  | JFloat float_val
  | JStr string
  | JList "json list"
  | JObject "(string \<times> json) list"

text \<open>Python's truth value of a decoded value, as tested by \<^verbatim>\<open>if update:\<close>.\<close>

fun truthy :: "json \<Rightarrow> bool" where
  "truthy JNull = False"
| "truthy (JBool b) = b"
| "truthy (JInt i) = (i \<noteq> 0)"
| "truthy (JFloat f) = (f \<noteq> FloatFinite 0)"
| "truthy (JStr s) = (s \<noteq> [])"
| "truthy (JList xs) = (xs \<noteq> [])"
| "truthy (JObject kvs) = (kvs \<noteq> [])"

text \<open>
  The subscript \<^verbatim>\<open>update["grpc_port"]\<close>: a dict raises KeyError on a missing key,
  every other decoded value raises TypeError on a string subscript.
\<close>

fun getitem :: "json \<Rightarrow> string \<Rightarrow> py_error + json" where
  "getitem (JObject kvs) k =
     (case map_of kvs k of None \<Rightarrow> Inl (KeyError k) | Some v \<Rightarrow> Inr v)"
| "getitem _ k = Inl TypeError"

section \<open>The companion spawner\<close>

text \<open>
  A child process as the spawner sees it: its pid and, when it has a standard output,
  the lines that output delivers before it closes. Every line is the byte string that
  \<^verbatim>\<open>readline\<close> returns; after the last one \<^verbatim>\<open>readline\<close> returns the empty
  byte string. Only outputs that close are covered: on an output that never closes and
  never announces a port the source loops forever.
\<close>

record Process =
  pid :: nat
  stdout :: "string list option"

record CompanionSpawner =
  companion_path :: string
  companion_processes :: "Process list"

text \<open>
  What lies outside the module: \<^verbatim>\<open>os.makedirs\<close>, \<^verbatim>\<open>open\<close> in append mode and
  \<^verbatim>\<open>asyncio.create_subprocess_exec\<close> (each may raise), and the decoder
  \<^verbatim>\<open>json.loads(line.decode())\<close>.
\<close>

record os_model =
  os_makedirs :: "string \<Rightarrow> py_error option"
  os_open_append :: "string \<Rightarrow> py_error option"
  create_subprocess_exec :: "string list \<Rightarrow> py_error + Process"
  json_loads :: "string \<Rightarrow> py_error + json"

text \<open>The calls made to the operating system, in the order they are made.\<close>

datatype os_call =
    Makedirs string
  | OpenAppend string
  | CreateSubprocessExec "string list"
  | CloseFile string

text \<open>
  \<^verbatim>\<open>_read_stream\<close>: \<open>port\<close> starts as 0; an empty read ends the loop, a falsy update is
  skipped, a truthy update is subscripted and ends the loop.
\<close>

fun read_stream :: "(string \<Rightarrow> py_error + json) \<Rightarrow> string list \<Rightarrow> py_error + json" where
  "read_stream loads [] = Inr (JInt 0)"
| "read_stream loads (line # rest) =
     (if line \<noteq> [] then
        (case loads line of
           Inl e \<Rightarrow> Inl e
         | Inr update \<Rightarrow>
             if truthy update then getitem update ''grpc_port''
             else read_stream loads rest)
      else Inr (JInt 0))"

text \<open>
  \<^verbatim>\<open>_log_file_path\<close>, with the constant \<^verbatim>\<open>IDB_LOGS_PATH\<close> of
  \<^verbatim>\<open>idb.common.constants\<close> as the parameter \<open>logs\<close>.
\<close>

definition log_file_path ::
  "os_model \<Rightarrow> string \<Rightarrow> string \<Rightarrow> (py_error + string) \<times> os_call list" where
  "log_file_path os logs target_udid =
     (case os_makedirs os logs of
        Some e \<Rightarrow> (Inl e, [Makedirs logs])
      | None \<Rightarrow> (Inr (logs @ ''/'' @ target_udid), [Makedirs logs]))"

text \<open>
  \<^verbatim>\<open>spawn_companion\<close> returns the port or the exception, the spawner afterwards and the
  operating-system calls made. The log file is closed when the \<^verbatim>\<open>with\<close> block is
  left, also by an exception.
\<close>

definition spawn_companion ::
  "os_model \<Rightarrow> string \<Rightarrow> CompanionSpawner \<Rightarrow> string
     \<Rightarrow> (py_error + json) \<times> CompanionSpawner \<times> os_call list" where
  "spawn_companion os logs self target_udid =
     (if companion_path self = [] then
        (Inl (CompanionSpawnerException (CompanionPathNotAvailable target_udid)), self, [])
      else
        let cmd = [companion_path self, ''--udid'', target_udid, ''--grpc-port'', ''0'']
        in case log_file_path os logs target_udid of
             (Inl e, calls) \<Rightarrow> (Inl e, self, calls)
           | (Inr path, calls) \<Rightarrow>
               (case os_open_append os path of
                  Some e \<Rightarrow> (Inl e, self, calls @ [OpenAppend path])
                | None \<Rightarrow>
                    (case create_subprocess_exec os cmd of
                       Inl e \<Rightarrow>
                         (Inl e, self,
                          calls @ [OpenAppend path, CreateSubprocessExec cmd, CloseFile path])
                     | Inr process \<Rightarrow>
                         (let self' = self\<lparr>companion_processes :=
                                             companion_processes self @ [process]\<rparr>;
                              calls' = calls @ [OpenAppend path, CreateSubprocessExec cmd,
                                                CloseFile path]
                          in case stdout process of
                               Some stream \<Rightarrow>
                                 (case read_stream (json_loads os) stream of
                                    Inl e \<Rightarrow> (Inl e, self', calls')
                                  | Inr port \<Rightarrow>
                                      if \<not> truthy port then
                                        (Inl (CompanionSpawnerException FailedToSpawnCompanion),
                                         self', calls')
                                      else (Inr port, self', calls'))
                             | None \<Rightarrow>
                                 (Inl (CompanionSpawnerException ProcessHasNoStdout),
                                  self', calls')))))"

text \<open>
  Vocabulary for the statements about the handshake. A line is skipped by the loop
  of \<^verbatim>\<open>_read_stream\<close> when it is not empty and decodes to a falsy value; it announces a
  port when it decodes to an object with the key \<^verbatim>\<open>grpc_port\<close>.
\<close>

definition skipped :: "(string \<Rightarrow> py_error + json) \<Rightarrow> string \<Rightarrow> bool" where
  "skipped loads line \<longleftrightarrow>
     line \<noteq> [] \<and> (case loads line of Inl e \<Rightarrow> False | Inr update \<Rightarrow> \<not> truthy update)"

definition announces_port :: "(string \<Rightarrow> py_error + json) \<Rightarrow> string \<Rightarrow> bool" where
  "announces_port loads line \<longleftrightarrow>
     (case loads line of
        Inr (JObject kvs) \<Rightarrow> map_of kvs ''grpc_port'' \<noteq> None
      | _ \<Rightarrow> False)"

text \<open>
  The child process that a call of \<^verbatim>\<open>spawn_companion\<close> creates, if it gets that far:
  the path is set, the log directory and the log file are there, and
  \<^verbatim>\<open>create_subprocess_exec\<close> returns.
\<close>

definition started_process ::
  "os_model \<Rightarrow> string \<Rightarrow> CompanionSpawner \<Rightarrow> string \<Rightarrow> Process option" where
  "started_process os logs self target_udid =
     (if companion_path self = [] then None
      else case os_makedirs os logs of
             Some e \<Rightarrow> None
           | None \<Rightarrow>
               (case os_open_append os (logs @ ''/'' @ target_udid) of
                  Some e \<Rightarrow> None
                | None \<Rightarrow>
                    (case create_subprocess_exec os
                            [companion_path self, ''--udid'', target_udid,
                             ''--grpc-port'', ''0''] of
                       Inl e \<Rightarrow> None
                     | Inr process \<Rightarrow> Some process)))"

text \<open>
  A fixture for the concrete runs below: the values of \<^verbatim>\<open>json.loads\<close> on the handful
  of lines those runs feed it. Any other line counts as undecodable here; no statement
  below reads the table outside the listed lines.
\<close>

definition line_no_quoted :: string where
  \<open>line_no_quoted = ''"no"''\<close>

definition line_no_bare :: string where
  "line_no_bare = ''no''"

definition line_port_10882 :: string where
  \<open>line_port_10882 = ''{"grpc_port": 10882}''\<close>

definition line_port_zero :: string where
  \<open>line_port_zero = ''{"grpc_port": 0}''\<close>

definition line_hostname :: string where
  \<open>line_hostname = ''{"hostname": "myHost"}''\<close>

definition line_empty_object :: string where
  "line_empty_object = ''{}''"

definition loads_table :: "string \<Rightarrow> py_error + json" where
  "loads_table l =
     (if l = line_no_quoted then Inr (JStr ''no'')
      else if l = line_port_10882 then Inr (JObject [(''grpc_port'', JInt 10882)])
      else if l = line_port_zero then Inr (JObject [(''grpc_port'', JInt 0)])
      else if l = line_hostname then Inr (JObject [(''hostname'', JStr ''myHost'')])
      else if l = line_empty_object then Inr (JObject [])
      else Inl JSONDecodeError)"

text \<open>
  A fake operating system in the manner of the scenario of the spec: every call
  succeeds and the child, pid 4242, writes the given lines and closes its output.
\<close>

definition fake_os :: "string list \<Rightarrow> os_model" where
  "fake_os out =
     \<lparr> os_makedirs = (\<lambda>_. None),
       os_open_append = (\<lambda>_. None),
       create_subprocess_exec = (\<lambda>_. Inr \<lparr> pid = 4242, stdout = Some out \<rparr>),
       json_loads = loads_table \<rparr>"

definition fresh_spawner :: CompanionSpawner where
  "fresh_spawner = \<lparr> companion_path = ''idb_companion'', companion_processes = [] \<rparr>"

section \<open>The install module\<close>

subsection \<open>Messages\<close>

text \<open>
  Modelled from the spec: the message classes of \<^verbatim>\<open>idb.grpc.idb_pb2\<close> are generated
  code that is not among the sources. Section 6 of the spec gives a request as one of
  a destination, a payload (Url, FilePath or RawBytes) or a name hint, and a response as
  a name and a uuid. \<open>NoSource\<close> and \<open>NoValue\<close> are the messages with no variant
  populated. Reading a field that is not populated yields the default of its type (the
  empty string, the empty byte string, the first enum value), which is what the
  truth tests of \<^verbatim>\<open>daemon\<close> rely on.
\<close>

datatype Payload = NoSource | FilePath string | Data bytes | Url string

fun file_path :: "Payload \<Rightarrow> string" where
  "file_path (FilePath p) = p"
| "file_path _ = []"

fun url :: "Payload \<Rightarrow> string" where
  "url (Url u) = u"
| "url _ = []"

fun data :: "Payload \<Rightarrow> bytes" where
  "data (Data d) = d"
| "data _ = []"

datatype InstallRequest =
    NoValue
  | DestinationMsg Destination
  | PayloadMsg Payload
  | NameHintMsg string

fun destination :: "InstallRequest \<Rightarrow> Destination" where
  "destination (DestinationMsg d) = d"
| "destination _ = APP"

fun payload :: "InstallRequest \<Rightarrow> Payload" where
  "payload (PayloadMsg p) = p"
| "payload _ = NoSource"

datatype InstallResponse = InstallResponse (resp_name: string) (resp_uuid: string)

datatype InstalledArtifact = InstalledArtifact (name: string) (uuid: string)

datatype Bundle = BundleStr string | BundleIO bytes

subsection \<open>Generators and streams\<close>

text \<open>
  An asynchronous generator is the list of the items it yields together with the
  exception that ends it, if one does. A stream to the downstream peer is recorded as
  the operations performed on it.
\<close>

type_synonym 'a generator = "'a list \<times> py_error option"

datatype stream_event = Open | Send InstallRequest | End | Recv

datatype gen_event = ReadEv bytes | YieldEv InstallRequest

fun yields :: "gen_event list \<Rightarrow> InstallRequest list" where
  "yields [] = []"
| "yields (YieldEv m # evs) = m # yields evs"
| "yields (ReadEv b # evs) = yields evs"

fun reads :: "gen_event list \<Rightarrow> bytes list" where
  "reads [] = []"
| "reads (ReadEv b # evs) = b # reads evs"
| "reads (YieldEv m # evs) = reads evs"

text \<open>
  What lies outside the module: opening a file for reading (the unread content, or the
  exception), the tar and gzip chunk generators of \<^verbatim>\<open>idb.common\<close>, the expansion of
  a test bundle into the paths to archive, and the two standard-library calls
  \<^verbatim>\<open>urllib.parse.urlparse(bundle).scheme\<close> and
  \<^verbatim>\<open>str(Path(bundle).resolve(strict=True))\<close>, either of which may raise.
\<close>

record install_env =
  aiofiles_open :: "string \<Rightarrow> py_error + bytes"
  generate_tar :: "string list \<Rightarrow> bytes generator"
  generate_gzip :: "string \<Rightarrow> bytes generator"
  xctest_paths_to_tar :: "string \<Rightarrow> py_error + string list"
  urlparse_scheme :: "string \<Rightarrow> py_error + string"
  path_resolve_strict :: "string \<Rightarrow> py_error + string"

record CompanionClient =
  is_local :: bool
  install_reply :: "InstallResponse option"

subsection \<open>Chunk encoders\<close>

definition CHUNK_SIZE :: nat where
  "CHUNK_SIZE = 16384"

text \<open>
  The loop shared, word for word, by \<^verbatim>\<open>_generate_ipa_chunks\<close> and
  \<^verbatim>\<open>_generate_io_chunks\<close>: read a block, return on an empty one, yield it otherwise.
  The argument is the unread part of the file; the result lists every read and every
  yield in the order they happen.
\<close>

function read_loop :: "bytes \<Rightarrow> gen_event list" where
  "read_loop rest =
     (let chunk = take CHUNK_SIZE rest
      in if chunk = [] then [ReadEv chunk]
         else ReadEv chunk # YieldEv (PayloadMsg (Data chunk))
                # read_loop (drop CHUNK_SIZE rest))"
  by pat_completeness auto
termination
  by (relation "measure length") (auto simp: CHUNK_SIZE_def)

declare read_loop.simps [simp del]

definition generate_ipa_chunks :: "install_env \<Rightarrow> string \<Rightarrow> InstallRequest generator" where
  "generate_ipa_chunks env ipa_path =
     (case aiofiles_open env ipa_path of
        Inl e \<Rightarrow> ([], Some e)
      | Inr file \<Rightarrow> (yields (read_loop file), None))"

definition generate_app_chunks :: "install_env \<Rightarrow> string \<Rightarrow> InstallRequest generator" where
  "generate_app_chunks env app_path =
     (case generate_tar env [app_path] of
        (chunks, err) \<Rightarrow> (map (\<lambda>chunk. PayloadMsg (Data chunk)) chunks, err))"

definition generate_xctest_chunks :: "install_env \<Rightarrow> string \<Rightarrow> InstallRequest generator" where
  "generate_xctest_chunks env path =
     (case xctest_paths_to_tar env path of
        Inl e \<Rightarrow> ([], Some e)
      | Inr paths \<Rightarrow>
          (case generate_tar env paths of
             (chunks, err) \<Rightarrow> (map (\<lambda>chunk. PayloadMsg (Data chunk)) chunks, err)))"

text \<open>\<^verbatim>\<open>os.path.basename\<close>: what follows the last slash.\<close>

definition basename :: "string \<Rightarrow> string" where
  "basename p = rev (takeWhile (\<lambda>c. c \<noteq> CHR ''/'') (rev p))"

definition generate_dylib_chunks :: "install_env \<Rightarrow> string \<Rightarrow> InstallRequest generator" where
  "generate_dylib_chunks env path =
     (case generate_gzip env path of
        (chunks, err) \<Rightarrow>
          (NameHintMsg (basename path) # map (\<lambda>chunk. PayloadMsg (Data chunk)) chunks, err))"

definition generate_dsym_chunks :: "install_env \<Rightarrow> string \<Rightarrow> InstallRequest generator" where
  "generate_dsym_chunks env path =
     (case generate_tar env [path] of
        (chunks, err) \<Rightarrow> (map (\<lambda>chunk. PayloadMsg (Data chunk)) chunks, err))"

definition generate_framework_chunks :: "install_env \<Rightarrow> string \<Rightarrow> InstallRequest generator" where
  "generate_framework_chunks env path =
     (case generate_tar env [path] of
        (chunks, err) \<Rightarrow> (map (\<lambda>chunk. PayloadMsg (Data chunk)) chunks, err))"

definition generate_io_chunks :: "bytes \<Rightarrow> InstallRequest generator" where
  "generate_io_chunks io = (yields (read_loop io), None)"

text \<open>The byte strings carried by a list of messages, read as \<^verbatim>\<open>m.payload.data\<close>.\<close>

definition chunk_data :: "InstallRequest list \<Rightarrow> bytes list" where
  "chunk_data msgs = map (\<lambda>m. data (payload m)) msgs"

definition endswith :: "string \<Rightarrow> string \<Rightarrow> bool" where
  "endswith s suffix \<longleftrightarrow>
     length suffix \<le> length s \<and> drop (length s - length suffix) s = suffix"

text \<open>
  \<^verbatim>\<open>_generate_binary_chunks\<close> is an ordinary function: it raises at the call, before
  any chunk is produced, when no encoder fits.
\<close>

definition generate_binary_chunks ::
  "install_env \<Rightarrow> string \<Rightarrow> Destination \<Rightarrow> py_error + InstallRequest generator" where
  "generate_binary_chunks env path dest =
     (if dest = APP then
        (if endswith path ''.ipa'' then Inr (generate_ipa_chunks env path)
         else if endswith path ''.app'' then Inr (generate_app_chunks env path)
         else Inl (GRPCError FAILED_PRECONDITION path dest))
      else if dest = XCTEST then Inr (generate_xctest_chunks env path)
      else if dest = DYLIB then Inr (generate_dylib_chunks env path)
      else if dest = DSYM then Inr (generate_dsym_chunks env path)
      else if dest = FRAMEWORK then Inr (generate_framework_chunks env path)
      else Inl (GRPCError FAILED_PRECONDITION path dest))"

subsection \<open>Helpers of other modules\<close>

text \<open>
  Modelled from the spec: \<^verbatim>\<open>none_throws\<close> of \<^verbatim>\<open>idb.utils.typing\<close> is not among the
  sources. It guards the reads of section 4.4 ("read exactly two inbound messages",
  "relay the single response"): it hands on a value that is there and raises on
  \<^verbatim>\<open>None\<close>.
\<close>

definition none_throws :: "'a option \<Rightarrow> py_error + 'a" where
  "none_throws optional = (case optional of None \<Rightarrow> Inl AssertionError | Some v \<Rightarrow> Inr v)"

text \<open>
  Modelled from the spec: \<^verbatim>\<open>drain_to_stream\<close> of \<^verbatim>\<open>idb.grpc.stream\<close> is not among
  the sources. Sections 4.3 and 4.4: drain the sequence into the stream, signal
  stream-end, read exactly one response. An exception of the generator ends the drain
  where it is raised. The first argument is what the peer answers.
\<close>

definition drain_to_stream ::
  "InstallResponse option \<Rightarrow> InstallRequest generator
     \<Rightarrow> (py_error + InstallResponse) \<times> stream_event list" where
  "drain_to_stream reply gen =
     (case gen of
        (msgs, Some e) \<Rightarrow> (Inl e, map Send msgs)
      | (msgs, None) \<Rightarrow> (none_throws reply, map Send msgs @ [End, Recv]))"

text \<open>\<^verbatim>\<open>recv_message\<close> on the inbound stream: the next message, or \<^verbatim>\<open>None\<close> at its end.\<close>

fun recv_message :: "'a list \<Rightarrow> 'a option \<times> 'a list" where
  "recv_message [] = (None, [])"
| "recv_message (m # ms) = (Some m, ms)"

subsection \<open>The install client\<close>

definition install_to_destination ::
  "install_env \<Rightarrow> CompanionClient \<Rightarrow> Bundle \<Rightarrow> Destination
     \<Rightarrow> (py_error + InstalledArtifact) \<times> stream_event list" where
  "install_to_destination env client bundle dest =
     (case bundle of
        BundleStr s \<Rightarrow>
          (case (case urlparse_scheme env s of
                   Inl e \<Rightarrow> Inl e
                 | Inr scheme \<Rightarrow>
                     if scheme \<noteq> [] then Inr (Url s)
                     else (case path_resolve_strict env s of
                             Inl e \<Rightarrow> Inl e
                           | Inr p \<Rightarrow> Inr (FilePath p))) of
             Inl e \<Rightarrow> (Inl e, [])
           | Inr pl \<Rightarrow>
               (let evs = [Open, Send (DestinationMsg dest), Send (PayloadMsg pl), End, Recv]
                in case install_reply client of
                     None \<Rightarrow> (Inl AttributeError, evs)
                   | Some response \<Rightarrow>
                       (Inr (InstalledArtifact (resp_name response) (resp_uuid response)),
                        evs)))
      | BundleIO io \<Rightarrow>
          (case drain_to_stream (install_reply client) (generate_io_chunks io) of
             (Inl e, evs) \<Rightarrow> (Inl e, [Open, Send (DestinationMsg dest)] @ evs)
           | (Inr response, evs) \<Rightarrow>
               (Inr (InstalledArtifact (resp_name response) (resp_uuid response)),
                [Open, Send (DestinationMsg dest)] @ evs)))"

definition install ::
  "install_env \<Rightarrow> CompanionClient \<Rightarrow> Bundle
     \<Rightarrow> (py_error + InstalledArtifact) \<times> stream_event list" where
  "install env client bundle = install_to_destination env client bundle APP"

definition install_xctest ::
  "install_env \<Rightarrow> CompanionClient \<Rightarrow> Bundle
     \<Rightarrow> (py_error + InstalledArtifact) \<times> stream_event list" where
  "install_xctest env client bundle = install_to_destination env client bundle XCTEST"

definition install_dylib ::
  "install_env \<Rightarrow> CompanionClient \<Rightarrow> Bundle
     \<Rightarrow> (py_error + InstalledArtifact) \<times> stream_event list" where
  "install_dylib env client dylib = install_to_destination env client dylib DYLIB"

definition install_dsym ::
  "install_env \<Rightarrow> CompanionClient \<Rightarrow> Bundle
     \<Rightarrow> (py_error + InstalledArtifact) \<times> stream_event list" where
  "install_dsym env client dsym = install_to_destination env client dsym DSYM"

definition install_framework ::
  "install_env \<Rightarrow> CompanionClient \<Rightarrow> Bundle
     \<Rightarrow> (py_error + InstalledArtifact) \<times> stream_event list" where
  "install_framework env client framework_path =
     install_to_destination env client framework_path FRAMEWORK"

subsection \<open>The relay\<close>

text \<open>
  The body of \<^verbatim>\<open>daemon\<close> from the point where both messages have been received:
  the forward stream is opened, the destination message is sent, and the payload decides
  the branch. The last argument is the rest of the inbound stream.
\<close>

definition relay ::
  "install_env \<Rightarrow> CompanionClient \<Rightarrow> InstallRequest \<Rightarrow> InstallRequest \<Rightarrow> InstallRequest list
     \<Rightarrow> (py_error + unit) \<times> stream_event list \<times> InstallResponse list" where
  "relay env client destination_message payload_message inbound2 =
     (let fp = file_path (payload payload_message);
          u = url (payload payload_message);
          d = data (payload payload_message);
          dest = destination destination_message;
          evs = [Open, Send destination_message]
      in if is_local client \<or> length u \<noteq> 0 then
           (case none_throws (install_reply client) of
              Inl e \<Rightarrow> (Inl e, evs @ [Send payload_message, End, Recv], [])
            | Inr response \<Rightarrow>
                (Inr (), evs @ [Send payload_message, End, Recv], [response]))
         else if fp \<noteq> [] then
           (case generate_binary_chunks env fp dest of
              Inl e \<Rightarrow> (Inl e, evs, [])
            | Inr gen \<Rightarrow>
                (case drain_to_stream (install_reply client) gen of
                   (Inl e, evs') \<Rightarrow> (Inl e, evs @ evs', [])
                 | (Inr response, evs') \<Rightarrow> (Inr (), evs @ evs', [response])))
         else if d \<noteq> [] then
           (case drain_to_stream (install_reply client) (inbound2, None) of
              (Inl e, evs') \<Rightarrow> (Inl e, evs @ [Send payload_message] @ evs', [])
            | (Inr response, evs') \<Rightarrow>
                (Inr (), evs @ [Send payload_message] @ evs', [response]))
         else (Inl (Exception ''Unrecognised payload message''), evs, []))"

text \<open>
  \<^verbatim>\<open>daemon\<close> takes the messages the inbound caller sends before it ends its stream and
  returns the outcome, the operations on the forward stream and the responses written
  back to the caller.
\<close>

definition daemon ::
  "install_env \<Rightarrow> CompanionClient \<Rightarrow> InstallRequest list
     \<Rightarrow> (py_error + unit) \<times> stream_event list \<times> InstallResponse list" where
  "daemon env client inbound =
     (case recv_message inbound of
        (first, inbound1) \<Rightarrow>
          (case none_throws first of
             Inl e \<Rightarrow> (Inl e, [], [])
           | Inr destination_message \<Rightarrow>
               (case recv_message inbound1 of
                  (second, inbound2) \<Rightarrow>
                    (case none_throws second of
                       Inl e \<Rightarrow> (Inl e, [], [])
                     | Inr payload_message \<Rightarrow>
                         relay env client destination_message payload_message inbound2))))"

text \<open>Fixtures for the concrete runs of the install module.\<close>

definition fake_env :: install_env where
  "fake_env =
     \<lparr> aiofiles_open = (\<lambda>p. if p = ''/tmp/app.ipa'' then Inr [1, 2, 3] else Inl FileNotFoundError),
       generate_tar = (\<lambda>_. ([[7, 7]], None)),
       generate_gzip = (\<lambda>_. ([[31, 139], [8]], None)),
       xctest_paths_to_tar = (\<lambda>p. Inr [p]),
       urlparse_scheme =
         (\<lambda>s. if s = ''https://example.com/a.ipa'' then Inr ''https'' else Inr []),
       path_resolve_strict =
         (\<lambda>s. if s = ''app.ipa'' then Inr ''/tmp/app.ipa'' else Inl FileNotFoundError) \<rparr>"

definition remote_client :: CompanionClient where
  "remote_client =
     \<lparr> is_local = False, install_reply = Some (InstallResponse ''App'' ''abc'') \<rparr>"

definition local_client :: CompanionClient where
  "local_client =
     \<lparr> is_local = True, install_reply = Some (InstallResponse ''App'' ''abc'') \<rparr>"

section \<open>Properties of the companion spawner\<close>

subsection \<open>Auxiliary facts\<close>

lemma line_nonempty:
  "line_no_quoted \<noteq> []" "line_no_bare \<noteq> []" "line_port_10882 \<noteq> []"
  "line_port_zero \<noteq> []" "line_hostname \<noteq> []" "line_empty_object \<noteq> []"
  by (simp_all add: line_no_quoted_def line_no_bare_def line_port_10882_def
        line_port_zero_def line_hostname_def line_empty_object_def)

lemma loads_table_simps:
  "loads_table line_no_quoted = Inr (JStr ''no'')"
  "loads_table line_no_bare = Inl JSONDecodeError"
  "loads_table line_port_10882 = Inr (JObject [(''grpc_port'', JInt 10882)])"
  "loads_table line_port_zero = Inr (JObject [(''grpc_port'', JInt 0)])"
  "loads_table line_hostname = Inr (JObject [(''hostname'', JStr ''myHost'')])"
  "loads_table line_empty_object = Inr (JObject [])"
  by (simp_all add: loads_table_def line_no_quoted_def line_no_bare_def line_port_10882_def
        line_port_zero_def line_hostname_def line_empty_object_def)

lemma spawn_fake:
  "spawn_companion (fake_os out) logs fresh_spawner udid =
     (let self' = \<lparr> companion_path = ''idb_companion'',
                     companion_processes = [\<lparr> pid = 4242, stdout = Some out \<rparr>] \<rparr>;
          calls = [Makedirs logs, OpenAppend (logs @ ''/'' @ udid),
                   CreateSubprocessExec [''idb_companion'', ''--udid'', udid, ''--grpc-port'', ''0''],
                   CloseFile (logs @ ''/'' @ udid)]
      in case read_stream loads_table out of
           Inl e \<Rightarrow> (Inl e, self', calls)
         | Inr port \<Rightarrow> if \<not> truthy port
                       then (Inl (CompanionSpawnerException FailedToSpawnCompanion), self', calls)
                       else (Inr port, self', calls))"
  by (simp add: spawn_companion_def fake_os_def fresh_spawner_def log_file_path_def Let_def
      split: sum.split)

lemma started_fake:
  "started_process (fake_os out) logs fresh_spawner udid = Some \<lparr> pid = 4242, stdout = Some out \<rparr>"
  by (simp add: started_process_def fake_os_def fresh_spawner_def)

lemma json_loads_fake: "json_loads (fake_os out) = loads_table"
  by (simp add: fake_os_def)

text \<open>What spawn does once the child exists.\<close>

lemma spawn_started:
  assumes "started_process os logs self udid = Some process"
  shows "spawn_companion os logs self udid =
           ((case stdout process of
               Some stream \<Rightarrow>
                 (case read_stream (json_loads os) stream of
                    Inl e \<Rightarrow> Inl e
                  | Inr port \<Rightarrow>
                      if \<not> truthy port
                      then Inl (CompanionSpawnerException FailedToSpawnCompanion)
                      else Inr port)
             | None \<Rightarrow> Inl (CompanionSpawnerException ProcessHasNoStdout)),
            self\<lparr>companion_processes := companion_processes self @ [process]\<rparr>,
            [Makedirs logs, OpenAppend (logs @ ''/'' @ udid),
             CreateSubprocessExec [companion_path self, ''--udid'', udid, ''--grpc-port'', ''0''],
             CloseFile (logs @ ''/'' @ udid)])"
  using assms
  by (auto simp: started_process_def spawn_companion_def log_file_path_def Let_def
      split: if_splits option.splits sum.splits)

lemma spawn_not_started:
  assumes "started_process os logs self udid = None"
  shows "fst (snd (spawn_companion os logs self udid)) = self"
    and "\<exists>e. fst (spawn_companion os logs self udid) = Inl e"
  using assms
  by (auto simp: started_process_def spawn_companion_def log_file_path_def Let_def
      split: if_splits option.splits sum.splits)

lemma read_stream_skip:
  "list_all (skipped loads) pre \<Longrightarrow> read_stream loads (pre @ rest) = read_stream loads rest"
  by (induction pre) (auto simp: skipped_def split: sum.splits)

lemma read_stream_all_skipped:
  "list_all (skipped loads) ls \<Longrightarrow> read_stream loads ls = Inr (JInt 0)"
  using read_stream_skip [of loads ls "[]"] by simp

lemma read_stream_announce:
  assumes "line \<noteq> []" "loads line = Inr (JObject kvs)" "map_of kvs ''grpc_port'' = Some port"
  shows "read_stream loads (line # rest) = Inr port"
proof -
  from assms(3) have "kvs \<noteq> []" by auto
  with assms show ?thesis by simp
qed

lemma read_stream_no_announce:
  "\<not> list_ex (announces_port loads) ls \<Longrightarrow>
   read_stream loads ls = Inr (JInt 0) \<or> (\<exists>e. read_stream loads ls = Inl e)"
proof (induction ls)
  case Nil
  then show ?case by simp
next
  case (Cons l ls)
  show ?case
  proof (cases "l = []")
    case True
    then show ?thesis by simp
  next
    case False
    show ?thesis
    proof (cases "loads l")
      case (Inl e)
      with False show ?thesis by simp
    next
      case (Inr u)
      show ?thesis
      proof (cases "truthy u")
        case True
        from Cons.prems Inr have "getitem u ''grpc_port'' = Inl TypeError \<or> getitem u ''grpc_port'' = Inl (KeyError ''grpc_port'')"
          by (cases u) (auto simp: announces_port_def)
        with False Inr True show ?thesis by auto
      next
        case F: False
        from Cons have "read_stream loads ls = Inr (JInt 0) \<or> (\<exists>e. read_stream loads ls = Inl e)"
          by simp
        with False Inr F show ?thesis by simp
      qed
    qed
  qed
qed

lemma read_stream_unskipped:
  assumes "\<not> skipped loads line" and "\<not> announces_port loads line"
  shows "read_stream loads (line # rest) =
           (if line = [] then Inr (JInt 0)
            else case loads line of
                   Inl e \<Rightarrow> Inl e
                 | Inr (JObject kvs) \<Rightarrow> Inl (KeyError ''grpc_port'')
                 | Inr _ \<Rightarrow> Inl TypeError)"
proof (cases "line = []")
  case True
  then show ?thesis by simp
next
  case False
  show ?thesis
  proof (cases "loads line")
    case (Inl e)
    with False show ?thesis by simp
  next
    case (Inr update)
    with assms(1) False have t: "truthy update"
      by (simp add: skipped_def)
    from assms(2) Inr have "getitem update ''grpc_port'' =
        (case update of JObject kvs \<Rightarrow> Inl (KeyError ''grpc_port'') | _ \<Rightarrow> Inl TypeError)"
      by (cases update) (auto simp: announces_port_def)
    with False Inr t show ?thesis by simp
  qed
qed

subsection \<open>The handshake\<close>

text \<open>
  Claim C2, scenario B of the spec, fails on the code. A child that writes the line
  \<^verbatim>\<open>"no"\<close> and then \<^verbatim>\<open>{"grpc_port": 10882}\<close> does not make \<^verbatim>\<open>spawn_companion\<close>
  return 10882: the first line decodes to the string \<^verbatim>\<open>no\<close>, which is truthy, and its
  subscript raises TypeError. Read without the quotes the line is not JSON and the
  decoder raises. In both readings the second line is never read.
\<close>

theorem scenario_b_counterexample:
  "fst (spawn_companion (fake_os [line_no_quoted, line_port_10882]) ''/logs''
          fresh_spawner ''UDID1'') = Inl TypeError
   \<and> fst (spawn_companion (fake_os [line_no_bare, line_port_10882]) ''/logs''
          fresh_spawner ''UDID1'') = Inl JSONDecodeError"
  by (simp add: spawn_fake line_nonempty loads_table_simps)

text \<open>
  Claim C2 as amended: during the handshake every line that decodes to a falsy value
  (\<^verbatim>\<open>null\<close>, \<^verbatim>\<open>false\<close>, \<^verbatim>\<open>0\<close>, an empty string, list or object) is skipped and
  reading continues; when the first line that is not skipped decodes to an object
  whose \<^verbatim>\<open>grpc_port\<close> is truthy, \<^verbatim>\<open>spawn_companion\<close> returns that value. In
  particular a child that writes \<^verbatim>\<open>{}\<close> and then \<^verbatim>\<open>{"grpc_port": 10882}\<close> yields 10882.
\<close>

theorem handshake_skips_falsy_lines:
  assumes "started_process os logs self udid = Some process"
    and "stdout process = Some (pre @ line # rest)"
    and "list_all (skipped (json_loads os)) pre"
    and "line \<noteq> []"
    and "json_loads os line = Inr (JObject kvs)"
    and "map_of kvs ''grpc_port'' = Some port"
    and "truthy port"
  shows "fst (spawn_companion os logs self udid) = Inr port"
proof -
  have "read_stream (json_loads os) (pre @ line # rest) = Inr port"
    using read_stream_skip [OF assms(3)] read_stream_announce [of line "json_loads os" kvs _ rest] assms(4-6)
    by simp
  with assms(1,2,7) show ?thesis
    by (simp add: spawn_started)
qed

theorem handshake_skips_falsy_lines_witness:
  "fst (spawn_companion (fake_os [line_empty_object, line_port_10882]) ''/logs''
          fresh_spawner ''UDID1'') = Inr (JInt 10882)"
  using handshake_skips_falsy_lines
    [of "fake_os [line_empty_object, line_port_10882]" "''/logs''" fresh_spawner "''UDID1''"
        "\<lparr> pid = 4242, stdout = Some [line_empty_object, line_port_10882] \<rparr>"
        "[line_empty_object]" line_port_10882 "[]" "[(''grpc_port'', JInt 10882)]" "JInt 10882"]
  by (simp add: started_fake json_loads_fake skipped_def line_nonempty loads_table_simps)

text \<open>
  Claim C7 fails on the code as stated: an output that closes after the single line
  \<^verbatim>\<open>{"hostname": "myHost"}\<close> never announces a port, yet the exception is the KeyError
  of the subscript, not the spawner's own exception.
\<close>

theorem keyerror_handshake_counterexample:
  "\<not> list_ex (announces_port loads_table) [line_hostname]
   \<and> fst (spawn_companion (fake_os [line_hostname]) ''/logs'' fresh_spawner ''UDID1'')
       = Inl (KeyError ''grpc_port'')"
  by (simp add: spawn_fake announces_port_def line_nonempty loads_table_simps)

text \<open>
  Claim C7 as amended: for every output that closes without a line that decodes to an
  object with the key \<^verbatim>\<open>grpc_port\<close>, \<^verbatim>\<open>spawn_companion\<close> returns no port but raises.
  When every line of the output is skipped (decodes to a falsy value) the exception is
  \<^verbatim>\<open>CompanionSpawnerException("failed to spawn companion")\<close>. Otherwise it is the
  exception raised at the first line that is not skipped: the decoder's own exception
  when the line does not decode, \<^verbatim>\<open>KeyError('grpc_port')\<close> when it decodes to an object,
  \<^verbatim>\<open>TypeError\<close> when it decodes to any other truthy value. An empty read in the place
  of that line is the end of the output and gives the spawner's exception.
\<close>

theorem closed_output_without_port:
  assumes "started_process os logs self udid = Some process"
    and "stdout process = Some ls"
    and "\<not> list_ex (announces_port (json_loads os)) ls"
  shows "(list_all (skipped (json_loads os)) ls \<longrightarrow>
            fst (spawn_companion os logs self udid)
              = Inl (CompanionSpawnerException FailedToSpawnCompanion))
       \<and> (ls = pre @ line # rest \<longrightarrow> list_all (skipped (json_loads os)) pre \<longrightarrow>
            \<not> skipped (json_loads os) line \<longrightarrow>
            fst (spawn_companion os logs self udid)
              = (if line = [] then Inl (CompanionSpawnerException FailedToSpawnCompanion)
                 else case json_loads os line of
                        Inl e \<Rightarrow> Inl e
                      | Inr (JObject kvs) \<Rightarrow> Inl (KeyError ''grpc_port'')
                      | Inr _ \<Rightarrow> Inl TypeError))
       \<and> (\<exists>e. fst (spawn_companion os logs self udid) = Inl e)"
proof -
  let ?loads = "json_loads os"
  have spawn: "fst (spawn_companion os logs self udid) =
      (case read_stream ?loads ls of
         Inl e \<Rightarrow> Inl e
       | Inr port \<Rightarrow>
           if \<not> truthy port then Inl (CompanionSpawnerException FailedToSpawnCompanion)
           else Inr port)"
    using assms(1,2) by (simp add: spawn_started)
  have a: "fst (spawn_companion os logs self udid)
             = Inl (CompanionSpawnerException FailedToSpawnCompanion)"
    if "list_all (skipped ?loads) ls"
    using that by (simp add: spawn read_stream_all_skipped)
  have b: "fst (spawn_companion os logs self udid)
             = (if line = [] then Inl (CompanionSpawnerException FailedToSpawnCompanion)
                else case ?loads line of
                       Inl e \<Rightarrow> Inl e
                     | Inr (JObject kvs) \<Rightarrow> Inl (KeyError ''grpc_port'')
                     | Inr _ \<Rightarrow> Inl TypeError)"
    if "ls = pre @ line # rest" "list_all (skipped ?loads) pre" "\<not> skipped ?loads line"
  proof -
    from assms(3) that(1) have "\<not> announces_port ?loads line"
      by (simp add: list_ex_iff)
    from read_stream_unskipped [OF that(3) this, of rest]
    have "read_stream ?loads ls =
            (if line = [] then Inr (JInt 0)
             else case ?loads line of
                    Inl e \<Rightarrow> Inl e
                  | Inr (JObject kvs) \<Rightarrow> Inl (KeyError ''grpc_port'')
                  | Inr _ \<Rightarrow> Inl TypeError)"
      using that(1,2) by (simp add: read_stream_skip)
    then show ?thesis
      by (simp add: spawn split: sum.splits json.splits)
  qed
  have c: "\<exists>e. fst (spawn_companion os logs self udid) = Inl e"
    using read_stream_no_announce [OF assms(3)] by (auto simp: spawn)
  from a b c show ?thesis by blast
qed

theorem closed_output_without_port_witness:
  "fst (spawn_companion (fake_os [line_empty_object, line_empty_object]) ''/logs''
          fresh_spawner ''UDID1'')
     = Inl (CompanionSpawnerException FailedToSpawnCompanion)
   \<and> fst (spawn_companion (fake_os [line_empty_object, line_hostname]) ''/logs''
          fresh_spawner ''UDID1'')
     = Inl (KeyError ''grpc_port'')
   \<and> fst (spawn_companion (fake_os [line_no_quoted, line_empty_object]) ''/logs''
          fresh_spawner ''UDID1'')
     = Inl TypeError
   \<and> fst (spawn_companion (fake_os [line_no_bare]) ''/logs'' fresh_spawner ''UDID1'')
     = Inl JSONDecodeError"
proof -
  have one: "fst (spawn_companion (fake_os [line_empty_object, line_empty_object]) ''/logs''
          fresh_spawner ''UDID1'')
     = Inl (CompanionSpawnerException FailedToSpawnCompanion)"
    using closed_output_without_port
      [of "fake_os [line_empty_object, line_empty_object]" "''/logs''" fresh_spawner "''UDID1''"
          "\<lparr> pid = 4242, stdout = Some [line_empty_object, line_empty_object] \<rparr>"
          "[line_empty_object, line_empty_object]" "[]" "[]" "[]"]
    by (simp add: started_fake json_loads_fake skipped_def announces_port_def
          line_nonempty loads_table_simps)
  have two: "fst (spawn_companion (fake_os [line_empty_object, line_hostname]) ''/logs''
          fresh_spawner ''UDID1'')
     = Inl (KeyError ''grpc_port'')"
    using closed_output_without_port
      [of "fake_os [line_empty_object, line_hostname]" "''/logs''" fresh_spawner "''UDID1''"
          "\<lparr> pid = 4242, stdout = Some [line_empty_object, line_hostname] \<rparr>"
          "[line_empty_object, line_hostname]" "[line_empty_object]" line_hostname "[]"]
    by (simp add: started_fake json_loads_fake skipped_def announces_port_def
          line_nonempty loads_table_simps)
  have three: "fst (spawn_companion (fake_os [line_no_quoted, line_empty_object]) ''/logs''
          fresh_spawner ''UDID1'')
     = Inl TypeError"
    using closed_output_without_port
      [of "fake_os [line_no_quoted, line_empty_object]" "''/logs''" fresh_spawner "''UDID1''"
          "\<lparr> pid = 4242, stdout = Some [line_no_quoted, line_empty_object] \<rparr>"
          "[line_no_quoted, line_empty_object]" "[]" line_no_quoted "[line_empty_object]"]
    by (simp add: started_fake json_loads_fake skipped_def announces_port_def
          line_nonempty loads_table_simps)
  have four: "fst (spawn_companion (fake_os [line_no_bare]) ''/logs'' fresh_spawner ''UDID1'')
     = Inl JSONDecodeError"
    using closed_output_without_port
      [of "fake_os [line_no_bare]" "''/logs''" fresh_spawner "''UDID1''"
          "\<lparr> pid = 4242, stdout = Some [line_no_bare] \<rparr>"
          "[line_no_bare]" "[]" line_no_bare "[]"]
    by (simp add: started_fake json_loads_fake skipped_def announces_port_def
          line_nonempty loads_table_simps)
  from one two three four show ?thesis by simp
qed

text \<open>
  Claim C9: when the line that the handshake reaches is \<^verbatim>\<open>{"grpc_port": 0}\<close>,
  \<^verbatim>\<open>spawn_companion\<close> does not return 0; it raises the handshake failure
  \<^verbatim>\<open>CompanionSpawnerException("failed to spawn companion")\<close>, whatever follows that
  line. A port has to be non-zero for the handshake to succeed.
\<close>

theorem port_zero_fails:
  assumes "started_process os logs self udid = Some process"
    and "stdout process = Some (pre @ line # rest)"
    and "list_all (skipped (json_loads os)) pre"
    and "line \<noteq> []"
    and "json_loads os line = Inr (JObject kvs)"
    and "map_of kvs ''grpc_port'' = Some (JInt 0)"
  shows "fst (spawn_companion os logs self udid)
           = Inl (CompanionSpawnerException FailedToSpawnCompanion)"
proof -
  have "read_stream (json_loads os) (pre @ line # rest) = Inr (JInt 0)"
    using read_stream_skip [OF assms(3)] read_stream_announce [of line "json_loads os" kvs _ rest] assms(4-6)
    by simp
  with assms(1,2) show ?thesis
    by (simp add: spawn_started)
qed

theorem port_zero_fails_witness:
  "fst (spawn_companion (fake_os [line_port_zero, line_port_10882]) ''/logs''
          fresh_spawner ''UDID1'')
     = Inl (CompanionSpawnerException FailedToSpawnCompanion)"
  using port_zero_fails
    [of "fake_os [line_port_zero, line_port_10882]" "''/logs''" fresh_spawner "''UDID1''"
        "\<lparr> pid = 4242, stdout = Some [line_port_zero, line_port_10882] \<rparr>"
        "[]" line_port_zero "[line_port_10882]" "[(''grpc_port'', JInt 0)]"]
  by (simp add: started_fake json_loads_fake line_nonempty loads_table_simps)

subsection \<open>The registry and the side effects\<close>

text \<open>
  Claim C3 fails on the code for a handshake failure: the process is appended to
  \<^verbatim>\<open>companion_processes\<close> before its output is read, so a child whose output closes
  at once leaves an entry behind although \<^verbatim>\<open>spawn_companion\<close> raises.
\<close>

theorem failed_handshake_keeps_process_counterexample:
  "fst (spawn_companion (fake_os []) ''/logs'' fresh_spawner ''UDID1'')
     = Inl (CompanionSpawnerException FailedToSpawnCompanion)
   \<and> companion_processes (fst (snd (spawn_companion (fake_os []) ''/logs'' fresh_spawner ''UDID1'')))
     = [\<lparr> pid = 4242, stdout = Some [] \<rparr>]
   \<and> companion_processes fresh_spawner = []"
proof -
  have "companion_processes fresh_spawner = []"
    by (simp add: fresh_spawner_def)
  then show ?thesis
    by (simp add: spawn_fake)
qed

text \<open>
  Claim C3 as amended: when \<^verbatim>\<open>spawn_companion\<close> fails before the child process exists
  (no companion path, or the log directory, the log file or the process cannot be
  created) the spawner and its registry are unchanged; when it fails afterwards (no
  standard output, or any failure of the handshake) the registry is the old one with
  exactly that process appended.
\<close>

theorem failed_spawn_registry:
  assumes "fst (spawn_companion os logs self udid) = Inl e"
  shows "fst (snd (spawn_companion os logs self udid)) =
           (case started_process os logs self udid of
              None \<Rightarrow> self
            | Some process \<Rightarrow>
                self\<lparr>companion_processes := companion_processes self @ [process]\<rparr>)"
proof (cases "started_process os logs self udid")
  case None
  then show ?thesis by (simp add: spawn_not_started)
next
  case (Some process)
  then show ?thesis by (simp add: spawn_started)
qed

theorem failed_spawn_registry_witness:
  "fst (snd (spawn_companion (fake_os [line_hostname]) ''/logs'' fresh_spawner ''UDID1''))
     = fresh_spawner\<lparr>companion_processes := [\<lparr> pid = 4242, stdout = Some [line_hostname] \<rparr>]\<rparr>
   \<and> fst (snd (spawn_companion
                 ((fake_os [])\<lparr>create_subprocess_exec := (\<lambda>_. Inl FileNotFoundError)\<rparr>)
                 ''/logs'' fresh_spawner ''UDID1''))
     = fresh_spawner"
proof -
  let ?os = "(fake_os [])\<lparr>create_subprocess_exec := (\<lambda>_. Inl FileNotFoundError)\<rparr>"
  have a: "fst (spawn_companion (fake_os [line_hostname]) ''/logs'' fresh_spawner ''UDID1'')
             = Inl (KeyError ''grpc_port'')"
    by (simp add: spawn_fake line_nonempty loads_table_simps)
  have s: "started_process ?os ''/logs'' fresh_spawner ''UDID1'' = None"
    by (simp add: started_process_def fake_os_def fresh_spawner_def)
  have b: "fst (spawn_companion ?os ''/logs'' fresh_spawner ''UDID1'') = Inl FileNotFoundError"
    by (simp add: spawn_companion_def log_file_path_def fake_os_def fresh_spawner_def)
  have c: "companion_processes fresh_spawner = []"
    by (simp add: fresh_spawner_def)
  show ?thesis
    using failed_spawn_registry [OF a] failed_spawn_registry [OF b]
    by (simp add: started_fake s c)
qed

text \<open>
  Claim C10: with an empty companion path \<^verbatim>\<open>spawn_companion\<close> raises the configuration
  exception, naming the target, before any call to the operating system: no directory
  or log file is touched, no process is created, and the spawner with its registry is
  returned as it was.
\<close>

theorem unset_path_no_side_effect:
  assumes "companion_path self = []"
  shows "spawn_companion os logs self udid =
           (Inl (CompanionSpawnerException (CompanionPathNotAvailable udid)), self, [])"
  using assms by (simp add: spawn_companion_def)

theorem unset_path_no_side_effect_witness:
  "spawn_companion (fake_os [line_port_10882]) ''/logs''
      \<lparr> companion_path = [], companion_processes = [] \<rparr> ''UDID1''
     = (Inl (CompanionSpawnerException (CompanionPathNotAvailable ''UDID1'')),
        \<lparr> companion_path = [], companion_processes = [] \<rparr>, [])"
  using unset_path_no_side_effect
    [of "\<lparr> companion_path = [], companion_processes = [] \<rparr>" "fake_os [line_port_10882]"
        "''/logs''" "''UDID1''"]
  by simp

section \<open>Properties of the install module\<close>

subsection \<open>Auxiliary facts\<close>

lemma CHUNK_SIZE_pos: "0 < CHUNK_SIZE"
  by (simp add: CHUNK_SIZE_def)

lemma read_loop_Nil: "read_loop [] = [ReadEv []]"
  by (subst read_loop.simps) simp

lemma read_loop_Cons:
  "rest \<noteq> [] \<Longrightarrow>
   read_loop rest =
     ReadEv (take CHUNK_SIZE rest) # YieldEv (PayloadMsg (Data (take CHUNK_SIZE rest)))
       # read_loop (drop CHUNK_SIZE rest)"
  using CHUNK_SIZE_pos by (subst read_loop.simps) (simp add: Let_def)

lemma read_loop_cases [case_names empty block]:
  fixes P :: "bytes \<Rightarrow> bool"
  assumes "P []"
    and "\<And>rest. rest \<noteq> [] \<Longrightarrow> P (drop CHUNK_SIZE rest) \<Longrightarrow> P rest"
  shows "P content"
proof (induction content rule: read_loop.induct)
  case (1 rest)
  show ?case
  proof (cases "rest = []")
    case True
    with assms(1) show ?thesis by simp
  next
    case False
    with CHUNK_SIZE_pos have "take CHUNK_SIZE rest \<noteq> []" by simp
    with 1 have "P (drop CHUNK_SIZE rest)" by simp
    with False assms(2) show ?thesis by blast
  qed
qed

lemma yields_are_data:
  "yields (read_loop content) = map (\<lambda>c. PayloadMsg (Data c)) (chunk_data (yields (read_loop content)))"
proof (induction content rule: read_loop_cases)
  case empty
  show ?case by (simp add: read_loop_Nil chunk_data_def)
next
  case (block rest)
  then show ?case by (simp add: read_loop_Cons chunk_data_def)
qed

lemma concat_chunks: "concat (chunk_data (yields (read_loop content))) = content"
proof (induction content rule: read_loop_cases)
  case empty
  show ?case by (simp add: read_loop_Nil chunk_data_def)
next
  case (block rest)
  then show ?case by (simp add: read_loop_Cons chunk_data_def)
qed

lemma reads_chunks: "reads (read_loop content) = chunk_data (yields (read_loop content)) @ [[]]"
proof (induction content rule: read_loop_cases)
  case empty
  show ?case by (simp add: read_loop_Nil chunk_data_def)
next
  case (block rest)
  then show ?case by (simp add: read_loop_Cons chunk_data_def)
qed

lemma last_read_loop: "last (read_loop content) = ReadEv []"
proof (induction content rule: read_loop_cases)
  case empty
  show ?case by (simp add: read_loop_Nil)
next
  case (block rest)
  have "read_loop (drop CHUNK_SIZE rest) \<noteq> []"
    by (subst read_loop.simps) (simp add: Let_def)
  with block show ?case by (simp add: read_loop_Cons)
qed

lemma block_lengths:
  fixes n m :: nat
  assumes "0 < n"
  shows "m \<noteq> 0 \<Longrightarrow>
    min m n # (replicate ((m - n) div n) n @ (if (m - n) mod n = 0 then [] else [(m - n) mod n]))
      = replicate (m div n) n @ (if m mod n = 0 then [] else [m mod n])"
proof (cases "n \<le> m")
  case True
  with assms have "m div n = Suc ((m - n) div n)" by (simp add: le_div_geq)
  moreover from True have "m mod n = (m - n) mod n" by (simp add: le_mod_geq)
  moreover from True have "min m n = n" by simp
  ultimately show ?thesis by simp
next
  case False
  assume "m \<noteq> 0"
  with False show ?thesis by simp
qed

lemma lengths_chunks:
  "map length (chunk_data (yields (read_loop content)))
     = replicate (length content div CHUNK_SIZE) CHUNK_SIZE
       @ (if length content mod CHUNK_SIZE = 0 then [] else [length content mod CHUNK_SIZE])"
proof (induction content rule: read_loop_cases)
  case empty
  show ?case by (simp add: read_loop_Nil chunk_data_def)
next
  case (block rest)
  from block(1) have "length rest \<noteq> 0" by simp
  note step = block_lengths [OF CHUNK_SIZE_pos this]
  have "map length (chunk_data (yields (read_loop rest)))
          = min (length rest) CHUNK_SIZE
            # map length (chunk_data (yields (read_loop (drop CHUNK_SIZE rest))))"
    by (simp add: read_loop_Cons [OF block(1)] chunk_data_def)
  also have "map length (chunk_data (yields (read_loop (drop CHUNK_SIZE rest))))
          = replicate ((length rest - CHUNK_SIZE) div CHUNK_SIZE) CHUNK_SIZE
            @ (if (length rest - CHUNK_SIZE) mod CHUNK_SIZE = 0 then []
               else [(length rest - CHUNK_SIZE) mod CHUNK_SIZE])"
    using block(2) by simp
  finally show ?case
    by (simp only: step)
qed

lemma chunks_nonempty: "[] \<notin> set (chunk_data (yields (read_loop content)))"
proof (induction content rule: read_loop_cases)
  case empty
  show ?case by (simp add: read_loop_Nil chunk_data_def)
next
  case (block rest)
  with CHUNK_SIZE_pos show ?case by (simp add: read_loop_Cons chunk_data_def)
qed

lemma basename_no_slash: "CHR ''/'' \<notin> set (basename p)"
proof -
  have "\<forall>c \<in> set (takeWhile (\<lambda>c. c \<noteq> CHR ''/'') (rev p)). c \<noteq> CHR ''/''"
    using set_takeWhileD by fastforce
  then show ?thesis by (auto simp: basename_def)
qed

lemma basename_suffix:
  "p = rev (dropWhile (\<lambda>c. c \<noteq> CHR ''/'') (rev p)) @ basename p"
  unfolding basename_def
  by (metis rev_append rev_rev_ident takeWhile_dropWhile_id)

lemma basename_dir:
  "\<exists>dir. p = dir @ basename p \<and> (dir = [] \<or> last dir = CHR ''/'')"
proof -
  let ?d = "dropWhile (\<lambda>c. c \<noteq> CHR ''/'') (rev p)"
  have "rev ?d = [] \<or> last (rev ?d) = CHR ''/''"
  proof (cases ?d)
    case Nil
    then show ?thesis by simp
  next
    case (Cons c cs)
    then have "\<not> (c \<noteq> CHR ''/'')"
      using hd_dropWhile [of "\<lambda>c. c \<noteq> CHR ''/''" "rev p"] by simp
    with Cons show ?thesis by simp
  qed
  with basename_suffix [of p] show ?thesis by blast
qed

lemma fake_open: "aiofiles_open fake_env ''/tmp/app.ipa'' = Inr [1, 2, 3]"
  by (simp add: fake_env_def)

lemma fake_env_simps:
  "urlparse_scheme fake_env ''https://example.com/a.ipa'' = Inr ''https''"
  "urlparse_scheme fake_env ''app.ipa'' = Inr []"
  "urlparse_scheme fake_env ''missing.ipa'' = Inr []"
  "path_resolve_strict fake_env ''app.ipa'' = Inr ''/tmp/app.ipa''"
  "path_resolve_strict fake_env ''missing.ipa'' = Inl FileNotFoundError"
  by (simp_all add: fake_env_def)

lemma remote_client_simps:
  "is_local remote_client = False"
  "install_reply remote_client = Some (InstallResponse ''App'' ''abc'')"
  by (simp_all add: remote_client_def)

lemma local_client_simps:
  "is_local local_client = True"
  "install_reply local_client = Some (InstallResponse ''App'' ''abc'')"
  by (simp_all add: local_client_def)

subsection \<open>Chunk encoders\<close>

text \<open>
  Claim C4: for a file whose content has \<open>N\<close> bytes, the encoder of an \<^verbatim>\<open>.ipa\<close> path
  (once the file is open) and the encoder of an open byte stream run the same loop and
  emit only RawBytes messages; the chunks are the successive blocks of 16384 bytes of
  the content in file order, the last one shorter when 16384 does not divide \<open>N\<close>;
  their concatenation is the content, so its length is \<open>N\<close>. The reads of the loop are
  these chunks followed by one empty read, which is the last thing the loop does: no
  chunk is empty and none is emitted after the empty read.
\<close>

theorem fixed_block_encoding:
  assumes "aiofiles_open env ipa_path = Inr content"
  shows "generate_ipa_chunks env ipa_path = generate_io_chunks content
       \<and> generate_io_chunks content
           = (map (\<lambda>c. PayloadMsg (Data c)) (chunk_data (fst (generate_io_chunks content))), None)
       \<and> concat (chunk_data (fst (generate_io_chunks content))) = content
       \<and> length (concat (chunk_data (fst (generate_io_chunks content)))) = length content
       \<and> map length (chunk_data (fst (generate_io_chunks content)))
           = replicate (length content div CHUNK_SIZE) CHUNK_SIZE
             @ (if length content mod CHUNK_SIZE = 0 then [] else [length content mod CHUNK_SIZE])
       \<and> CHUNK_SIZE = 16384
       \<and> reads (read_loop content) = chunk_data (fst (generate_io_chunks content)) @ [[]]
       \<and> [] \<notin> set (chunk_data (fst (generate_io_chunks content)))
       \<and> last (read_loop content) = ReadEv []"
proof -
  have "generate_ipa_chunks env ipa_path = generate_io_chunks content"
    using assms by (simp add: generate_ipa_chunks_def generate_io_chunks_def)
  moreover have "generate_io_chunks content
      = (map (\<lambda>c. PayloadMsg (Data c)) (chunk_data (fst (generate_io_chunks content))), None)"
    using yields_are_data [of content] by (simp add: generate_io_chunks_def)
  moreover have "concat (chunk_data (fst (generate_io_chunks content))) = content"
    by (simp add: generate_io_chunks_def concat_chunks)
  moreover have "map length (chunk_data (fst (generate_io_chunks content)))
           = replicate (length content div CHUNK_SIZE) CHUNK_SIZE
             @ (if length content mod CHUNK_SIZE = 0 then [] else [length content mod CHUNK_SIZE])"
    using lengths_chunks [of content] by (simp add: generate_io_chunks_def)
  moreover have "CHUNK_SIZE = 16384"
    by (simp add: CHUNK_SIZE_def)
  moreover have "reads (read_loop content) = chunk_data (fst (generate_io_chunks content)) @ [[]]"
    by (simp add: generate_io_chunks_def reads_chunks)
  moreover have "[] \<notin> set (chunk_data (fst (generate_io_chunks content)))"
    by (simp add: generate_io_chunks_def chunks_nonempty)
  moreover have "last (read_loop content) = ReadEv []"
    by (rule last_read_loop)
  ultimately show ?thesis by simp
qed

theorem fixed_block_encoding_witness:
  "generate_ipa_chunks fake_env ''/tmp/app.ipa'' = ([PayloadMsg (Data [1, 2, 3])], None)
   \<and> generate_io_chunks [1, 2, 3] = ([PayloadMsg (Data [1, 2, 3])], None)
   \<and> reads (read_loop [1, 2, 3]) = [[1, 2, 3], []]
   \<and> map length (chunk_data (fst (generate_io_chunks (replicate 16385 0)))) = [16384, 1]
   \<and> concat (chunk_data (fst (generate_io_chunks (replicate 16385 0)))) = replicate 16385 0"
proof -
  note t = fixed_block_encoding [OF fake_open]
  from t have l: "map length (chunk_data (fst (generate_io_chunks [1, 2, 3]))) = [3]"
    by (simp add: CHUNK_SIZE_def)
  from t have c: "concat (chunk_data (fst (generate_io_chunks [1, 2, 3]))) = [1, 2, 3]"
    by simp
  from l obtain x where x: "chunk_data (fst (generate_io_chunks [1, 2, 3])) = [x]"
    by (cases "chunk_data (fst (generate_io_chunks [1, 2, 3]))") auto
  with c have "x = [1, 2, 3]" by simp
  with x have "chunk_data (fst (generate_io_chunks [1, 2, 3])) = [[1, 2, 3]]" by simp
  with t have small:
    "generate_ipa_chunks fake_env ''/tmp/app.ipa'' = ([PayloadMsg (Data [1, 2, 3])], None)
     \<and> generate_io_chunks [1, 2, 3] = ([PayloadMsg (Data [1, 2, 3])], None)
     \<and> reads (read_loop [1, 2, 3]) = [[1, 2, 3], []]"
    by simp
  have big:
    "map length (chunk_data (fst (generate_io_chunks (replicate 16385 0)))) = [16384, 1]
     \<and> concat (chunk_data (fst (generate_io_chunks (replicate 16385 0)))) = replicate 16385 0"
    using fixed_block_encoding
      [of "fake_env\<lparr>aiofiles_open := (\<lambda>_. Inr (replicate 16385 0))\<rparr>" "''big.ipa''"
          "replicate 16385 0"]
    by (simp add: CHUNK_SIZE_def)
  from small big show ?thesis by simp
qed

text \<open>
  Claim C5: for every path, the encoding chosen for the destination Dylib starts with a
  NameHint message carrying the base name of the path (the part after the last slash)
  and continues with nothing but RawBytes messages, one per chunk of the gzip generator
  and in its order; so no RawBytes message precedes the NameHint.
\<close>

theorem dylib_name_hint_first:
  "generate_binary_chunks env path DYLIB
     = Inr (NameHintMsg (basename path)
              # map (\<lambda>chunk. PayloadMsg (Data chunk)) (fst (generate_gzip env path)),
            snd (generate_gzip env path))
   \<and> CHR ''/'' \<notin> set (basename path)
   \<and> (\<exists>dir. path = dir @ basename path \<and> (dir = [] \<or> last dir = CHR ''/''))"
proof -
  have "generate_binary_chunks env path DYLIB
     = Inr (NameHintMsg (basename path)
              # map (\<lambda>chunk. PayloadMsg (Data chunk)) (fst (generate_gzip env path)),
            snd (generate_gzip env path))"
    by (simp add: generate_binary_chunks_def generate_dylib_chunks_def split: prod.split)
  with basename_no_slash [of path] basename_dir [of path] show ?thesis by blast
qed

theorem dylib_name_hint_first_witness:
  "generate_binary_chunks fake_env ''/tmp/x.dylib'' DYLIB
     = Inr ([NameHintMsg ''x.dylib'', PayloadMsg (Data [31, 139]), PayloadMsg (Data [8])], None)"
  using dylib_name_hint_first [of fake_env "''/tmp/x.dylib''"]
  by (simp add: fake_env_def basename_def)

subsection \<open>The install client\<close>

text \<open>
  Claim C6: for a string bundle, when the string parses with a URL scheme the payload
  sent is Url with the string itself; when it parses without one the string is resolved
  strictly and the exception of the resolution (FileNotFoundError for a path that does
  not exist) is the outcome, with no session opened; a resolved path is sent as
  FilePath. Whenever the
  operation succeeds the session is: open, one destination message, one payload message,
  stream-end, one response read, and the artifact returned has the name and uuid of
  that response.
\<close>

theorem install_string_bundle:
  "(urlparse_scheme env s = Inr scheme \<longrightarrow> scheme \<noteq> [] \<longrightarrow>
      snd (install_to_destination env client (BundleStr s) dest)
        = [Open, Send (DestinationMsg dest), Send (PayloadMsg (Url s)), End, Recv])
   \<and> (urlparse_scheme env s = Inr [] \<longrightarrow> path_resolve_strict env s = Inl e \<longrightarrow>
      install_to_destination env client (BundleStr s) dest = (Inl e, []))
   \<and> (urlparse_scheme env s = Inr [] \<longrightarrow> path_resolve_strict env s = Inr p \<longrightarrow>
      snd (install_to_destination env client (BundleStr s) dest)
        = [Open, Send (DestinationMsg dest), Send (PayloadMsg (FilePath p)), End, Recv])
   \<and> ((urlparse_scheme env s = Inr scheme \<and> scheme \<noteq> [])
        \<or> (urlparse_scheme env s = Inr [] \<and> path_resolve_strict env s = Inr p) \<longrightarrow>
      install_reply client = Some response \<longrightarrow>
      fst (install_to_destination env client (BundleStr s) dest)
        = Inr (InstalledArtifact (resp_name response) (resp_uuid response)))
   \<and> (fst (install_to_destination env client (BundleStr s) dest) = Inr artifact \<longrightarrow>
      (\<exists>pl r.
         snd (install_to_destination env client (BundleStr s) dest)
           = [Open, Send (DestinationMsg dest), Send (PayloadMsg pl), End, Recv]
         \<and> install_reply client = Some r
         \<and> artifact = InstalledArtifact (resp_name r) (resp_uuid r)))"
  by (auto simp: install_to_destination_def Let_def split: sum.splits option.splits)

theorem install_string_bundle_witness:
  "install_to_destination fake_env remote_client (BundleStr ''https://example.com/a.ipa'') APP
     = (Inr (InstalledArtifact ''App'' ''abc''),
        [Open, Send (DestinationMsg APP),
         Send (PayloadMsg (Url ''https://example.com/a.ipa'')), End, Recv])
   \<and> install_to_destination fake_env remote_client (BundleStr ''missing.ipa'') DSYM
     = (Inl FileNotFoundError, [])
   \<and> install_to_destination fake_env remote_client (BundleStr ''app.ipa'') APP
     = (Inr (InstalledArtifact ''App'' ''abc''),
        [Open, Send (DestinationMsg APP), Send (PayloadMsg (FilePath ''/tmp/app.ipa'')),
         End, Recv])"
  using
    install_string_bundle [of fake_env "''https://example.com/a.ipa''" "''https''"
      remote_client APP FileNotFoundError "''/tmp/app.ipa''" "InstallResponse ''App'' ''abc''"
      "InstalledArtifact ''App'' ''abc''"]
    install_string_bundle [of fake_env "''missing.ipa''" "[]" remote_client DSYM
      FileNotFoundError "''/tmp/app.ipa''" "InstallResponse ''App'' ''abc''"
      "InstalledArtifact ''App'' ''abc''"]
    install_string_bundle [of fake_env "''app.ipa''" "[]" remote_client APP
      FileNotFoundError "''/tmp/app.ipa''" "InstallResponse ''App'' ''abc''"
      "InstalledArtifact ''App'' ''abc''"]
  by (simp add: fake_env_simps remote_client_simps prod_eq_iff)

text \<open>
  Claim C8: each of the five entry points is the shared algorithm
  \<^verbatim>\<open>_install_to_destination\<close> applied to the same client and bundle with its own
  destination kind, and nothing else.
\<close>

theorem installers_share_algorithm:
  "install env client bundle = install_to_destination env client bundle APP
   \<and> install_xctest env client bundle = install_to_destination env client bundle XCTEST
   \<and> install_dylib env client bundle = install_to_destination env client bundle DYLIB
   \<and> install_dsym env client bundle = install_to_destination env client bundle DSYM
   \<and> install_framework env client bundle = install_to_destination env client bundle FRAMEWORK"
  by (simp add: install_def install_xctest_def install_dylib_def install_dsym_def
        install_framework_def)

subsection \<open>The relay\<close>

text \<open>
  Claim C1 fails on the code in two ways. The destination message is sent on the
  forward stream before the payload is inspected, so a message has been forwarded by
  the time the exception is raised; and on a local client the first branch forwards the
  payload message whatever it holds, so nothing is raised at all.
\<close>

theorem unrecognised_payload_counterexample:
  "daemon fake_env remote_client [DestinationMsg DYLIB, PayloadMsg NoSource]
     = (Inl (Exception ''Unrecognised payload message''), [Open, Send (DestinationMsg DYLIB)], [])
   \<and> daemon fake_env local_client [DestinationMsg DYLIB, PayloadMsg NoSource]
     = (Inr (), [Open, Send (DestinationMsg DYLIB), Send (PayloadMsg NoSource), End, Recv],
        [InstallResponse ''App'' ''abc''])"
  by (simp add: daemon_def relay_def none_throws_def remote_client_simps local_client_simps)

text \<open>
  Claim C1 as amended: on a client that is not local, for every inbound session whose
  first payload message has no non-empty Url, FilePath or RawBytes, \<^verbatim>\<open>daemon\<close> raises
  \<^verbatim>\<open>Exception("Unrecognised payload message")\<close>; by then the forward stream has been
  opened and the destination message sent, and nothing else: the payload message is not
  forwarded, the stream is not ended, no response is read or written back.
\<close>

theorem unrecognised_payload_remote:
  assumes "\<not> is_local client"
    and "file_path (payload payload_message) = []"
    and "url (payload payload_message) = []"
    and "data (payload payload_message) = []"
  shows "daemon env client (destination_message # payload_message # rest)
           = (Inl (Exception ''Unrecognised payload message''),
              [Open, Send destination_message], [])"
  using assms by (simp add: daemon_def relay_def none_throws_def)

theorem unrecognised_payload_remote_witness:
  "daemon fake_env remote_client
       [DestinationMsg APP, PayloadMsg NoSource, PayloadMsg (Data [1, 2])]
     = (Inl (Exception ''Unrecognised payload message''), [Open, Send (DestinationMsg APP)], [])
   \<and> daemon fake_env remote_client [DestinationMsg XCTEST, NameHintMsg ''x.dylib'']
     = (Inl (Exception ''Unrecognised payload message''), [Open, Send (DestinationMsg XCTEST)], [])"
  using
    unrecognised_payload_remote [of remote_client "PayloadMsg NoSource" fake_env
      "DestinationMsg APP" "[PayloadMsg (Data [1, 2])]"]
    unrecognised_payload_remote [of remote_client "NameHintMsg ''x.dylib''" fake_env
      "DestinationMsg XCTEST" "[]"]
  by (simp add: remote_client_simps)

end
